theory Spec2Isabelle
  imports Complex_Main "HOL-Library.Multiset"
begin

section \<open>Data model of camera-matrix-tool.tsx\<close>

text \<open>
  JavaScript numbers are modelled as real numbers: arithmetic is exact, there is no NaN and
  no rounding. Arrays are lists; the state's matrices (\<open>number[][]\<close>) are lists of rows.
  Every array of the state has a fixed shape (three coordinates, four rows of four cells):
  the program only ever replaces a cell at an index taken from a \<open>.map\<close> over the array
  itself, so reads are in range.
\<close>

record Boundaries =
  min_b :: "real list"
  max_b :: "real list"

record CameraState =
  position :: "real list"
  rotation :: "real list"
  transformMatrix :: "real list list"
  movementMatrix :: "real list list"
  initialPosition :: "real list"
  initialRotation :: "real list"
  isAnimating :: bool
  boundaries :: Boundaries

datatype Category = Translation | Rotation | Complex

record MovementPreset =
  preset_id :: string
  preset_name :: string
  description :: string
  category :: Category
  conflictsWith :: "string list option"
  matrix :: "real list list"

definition MOVEMENT_PRESETS :: "MovementPreset list" where
  "MOVEMENT_PRESETS = [
    \<lparr>preset_id = ''forward'', preset_name = ''Forward'',
     description = ''Move forward (negative Z)'', category = Translation,
     conflictsWith = Some [''backward''],
     matrix = [[1, 0, 0, 0], [0, 1, 0, 0], [0, 0, 1, -0.02], [0, 0, 0, 1]]\<rparr>,
    \<lparr>preset_id = ''backward'', preset_name = ''Backward'',
     description = ''Move backward (positive Z)'', category = Translation,
     conflictsWith = Some [''forward''],
     matrix = [[1, 0, 0, 0], [0, 1, 0, 0], [0, 0, 1, 0.02], [0, 0, 0, 1]]\<rparr>,
    \<lparr>preset_id = ''left'', preset_name = ''Left'',
     description = ''Move left (negative X)'', category = Translation,
     conflictsWith = Some [''right''],
     matrix = [[1, 0, 0, -0.02], [0, 1, 0, 0], [0, 0, 1, 0], [0, 0, 0, 1]]\<rparr>,
    \<lparr>preset_id = ''right'', preset_name = ''Right'',
     description = ''Move right (positive X)'', category = Translation,
     conflictsWith = Some [''left''],
     matrix = [[1, 0, 0, 0.02], [0, 1, 0, 0], [0, 0, 1, 0], [0, 0, 0, 1]]\<rparr>,
    \<lparr>preset_id = ''up'', preset_name = ''Up'',
     description = ''Move up (positive Y)'', category = Translation,
     conflictsWith = Some [''down''],
     matrix = [[1, 0, 0, 0], [0, 1, 0, 0.02], [0, 0, 1, 0], [0, 0, 0, 1]]\<rparr>,
    \<lparr>preset_id = ''down'', preset_name = ''Down'',
     description = ''Move down (negative Y)'', category = Translation,
     conflictsWith = Some [''up''],
     matrix = [[1, 0, 0, 0], [0, 1, 0, -0.02], [0, 0, 1, 0], [0, 0, 0, 1]]\<rparr>,
    \<lparr>preset_id = ''yaw-left'', preset_name = ''Yaw Left'',
     description = ''Rotate left around Y-axis'', category = Rotation,
     conflictsWith = Some [''yaw-right''],
     matrix = [[0.9998, 0, 0.02, 0], [0, 1, 0, 0], [-0.02, 0, 0.9998, 0], [0, 0, 0, 1]]\<rparr>,
    \<lparr>preset_id = ''yaw-right'', preset_name = ''Yaw Right'',
     description = ''Rotate right around Y-axis'', category = Rotation,
     conflictsWith = Some [''yaw-left''],
     matrix = [[0.9998, 0, -0.02, 0], [0, 1, 0, 0], [0.02, 0, 0.9998, 0], [0, 0, 0, 1]]\<rparr>,
    \<lparr>preset_id = ''pitch-up'', preset_name = ''Pitch Up'',
     description = ''Look up around X-axis'', category = Rotation,
     conflictsWith = Some [''pitch-down''],
     matrix = [[1, 0, 0, 0], [0, 0.9998, -0.02, 0], [0, 0.02, 0.9998, 0], [0, 0, 0, 1]]\<rparr>,
    \<lparr>preset_id = ''pitch-down'', preset_name = ''Pitch Down'',
     description = ''Look down around X-axis'', category = Rotation,
     conflictsWith = Some [''pitch-up''],
     matrix = [[1, 0, 0, 0], [0, 0.9998, 0.02, 0], [0, -0.02, 0.9998, 0], [0, 0, 0, 1]]\<rparr>,
    \<lparr>preset_id = ''spiral-up'', preset_name = ''Spiral Up'',
     description = ''Rotate + move up + forward'', category = Complex,
     conflictsWith = None,
     matrix = [[0.999, 0, 0.045, 0], [0, 1, 0, 0.01], [-0.045, 0, 0.999, -0.01], [0, 0, 0, 1]]\<rparr>
  ]"

text \<open>\<open>MOVEMENT_PRESETS.find((p) => p.id === id)\<close>: the first entry with that id, if any.\<close>

definition find_preset :: "string \<Rightarrow> MovementPreset option" where
  "find_preset pid = find (\<lambda>p. preset_id p = pid) MOVEMENT_PRESETS"

section \<open>Preset selection\<close>

text \<open>
  \<open>togglePreset\<close> returns early for an id that is not in the catalog; otherwise it is the
  updater passed to \<open>setSelectedPresets\<close>, applied to the current selection \<open>prev\<close>.
\<close>

definition togglePreset :: "string \<Rightarrow> string list \<Rightarrow> string list" where
  "togglePreset presetId prev =
     (case find_preset presetId of
        None \<Rightarrow> prev
      | Some preset \<Rightarrow>
          if presetId \<in> set prev then filter (\<lambda>i. i \<noteq> presetId) prev
          else (case conflictsWith preset of
                  Some cs \<Rightarrow> filter (\<lambda>i. i \<notin> set cs) prev
                | None \<Rightarrow> prev) @ [presetId])"

text \<open>The selection reached from the empty one by a sequence of toggles, oldest first.\<close>

definition toggle_all :: "string list \<Rightarrow> string list" where
  "toggle_all ids = fold togglePreset ids []"

text \<open>Preset \<open>a\<close> lists \<open>b\<close> in its \<open>conflictsWith\<close>.\<close>

definition lists_conflict :: "string \<Rightarrow> string \<Rightarrow> bool" where
  "lists_conflict a b =
     (case find_preset a of
        None \<Rightarrow> False
      | Some p \<Rightarrow> (case conflictsWith p of None \<Rightarrow> False | Some cs \<Rightarrow> b \<in> set cs))"

definition conflict_free :: "string list \<Rightarrow> bool" where
  "conflict_free sel = (\<forall>a \<in> set sel. \<forall>b \<in> set sel. \<not> lists_conflict a b)"


section \<open>The parts of three.js the program calls\<close>

text \<open>
  Modelled from the spec: three.js is a dependency and not among the sources. The spec
  (Matrix Algebra Utilities) fixes what the program needs of it: \<open>multiply\<close> is the standard
  4x4 product, \<open>compose\<close> builds the rotation matrix of the Euler angles in intrinsic X-Y-Z
  order and sets the translation column, \<open>decompose\<close> reads the translation from the last
  column. A \<open>Matrix4\<close> is its \<open>elements\<close> array of sixteen numbers in column-major order;
  \<open>set\<close> takes its arguments in row-major order. The quaternion that \<open>decompose\<close> extracts
  and its conversion to Euler angles are not modelled: the functions that use them take
  them as parameters.
\<close>

text \<open>Modelled from the spec: the \<open>elements\<close> array of a three.js \<open>Matrix4\<close>.\<close>

type_synonym Matrix4 = "real list"

text \<open>Modelled from the spec: three.js \<open>Vector3\<close> and \<open>Euler\<close> (order \<open>XYZ\<close>).\<close>

datatype Vector3 = Vector3 (vx: real) (vy: real) (vz: real)

datatype Euler = Euler (ex: real) (ey: real) (ez: real)

text \<open>Modelled from the spec: \<open>Matrix4.set\<close>, row-major arguments into column-major
  elements.\<close>

definition Matrix4_set ::
  "real \<Rightarrow> real \<Rightarrow> real \<Rightarrow> real \<Rightarrow> real \<Rightarrow> real \<Rightarrow> real \<Rightarrow> real \<Rightarrow>
   real \<Rightarrow> real \<Rightarrow> real \<Rightarrow> real \<Rightarrow> real \<Rightarrow> real \<Rightarrow> real \<Rightarrow> real \<Rightarrow> Matrix4" where
  "Matrix4_set n11 n12 n13 n14 n21 n22 n23 n24 n31 n32 n33 n34 n41 n42 n43 n44 =
     [n11, n21, n31, n41, n12, n22, n32, n42, n13, n23, n33, n43, n14, n24, n34, n44]"

text \<open>Modelled from the spec: \<open>new THREE.Matrix4()\<close> is the identity,
  \<open>new THREE.Euler()\<close> the zero rotation.\<close>

definition Matrix4_new :: Matrix4 where
  "Matrix4_new = Matrix4_set 1 0 0 0  0 1 0 0  0 0 1 0  0 0 0 1"

definition Euler_new :: Euler where
  "Euler_new = Euler 0 0 0"

text \<open>Modelled from the spec: \<open>Matrix4.multiply\<close>, the standard 4x4 product;
  \<open>a.multiply(b)\<close> stores the product \<open>a b\<close> in \<open>a\<close>.\<close>

definition Matrix4_multiply :: "Matrix4 \<Rightarrow> Matrix4 \<Rightarrow> Matrix4" where
  "Matrix4_multiply ae be =
     (let a11 = ae ! 0; a12 = ae ! 4; a13 = ae ! 8; a14 = ae ! 12;
          a21 = ae ! 1; a22 = ae ! 5; a23 = ae ! 9; a24 = ae ! 13;
          a31 = ae ! 2; a32 = ae ! 6; a33 = ae ! 10; a34 = ae ! 14;
          a41 = ae ! 3; a42 = ae ! 7; a43 = ae ! 11; a44 = ae ! 15;
          b11 = be ! 0; b12 = be ! 4; b13 = be ! 8; b14 = be ! 12;
          b21 = be ! 1; b22 = be ! 5; b23 = be ! 9; b24 = be ! 13;
          b31 = be ! 2; b32 = be ! 6; b33 = be ! 10; b34 = be ! 14;
          b41 = be ! 3; b42 = be ! 7; b43 = be ! 11; b44 = be ! 15
      in Matrix4_set
           (a11 * b11 + a12 * b21 + a13 * b31 + a14 * b41)
           (a11 * b12 + a12 * b22 + a13 * b32 + a14 * b42)
           (a11 * b13 + a12 * b23 + a13 * b33 + a14 * b43)
           (a11 * b14 + a12 * b24 + a13 * b34 + a14 * b44)
           (a21 * b11 + a22 * b21 + a23 * b31 + a24 * b41)
           (a21 * b12 + a22 * b22 + a23 * b32 + a24 * b42)
           (a21 * b13 + a22 * b23 + a23 * b33 + a24 * b43)
           (a21 * b14 + a22 * b24 + a23 * b34 + a24 * b44)
           (a31 * b11 + a32 * b21 + a33 * b31 + a34 * b41)
           (a31 * b12 + a32 * b22 + a33 * b32 + a34 * b42)
           (a31 * b13 + a32 * b23 + a33 * b33 + a34 * b43)
           (a31 * b14 + a32 * b24 + a33 * b34 + a34 * b44)
           (a41 * b11 + a42 * b21 + a43 * b31 + a44 * b41)
           (a41 * b12 + a42 * b22 + a43 * b32 + a44 * b42)
           (a41 * b13 + a42 * b23 + a43 * b33 + a44 * b43)
           (a41 * b14 + a42 * b24 + a43 * b34 + a44 * b44))"

text \<open>Modelled from the spec: \<open>Matrix4.makeRotationFromEuler\<close>, the rotation-only matrix of
  Euler angles in intrinsic X-Y-Z order (the product of the rotations about x, y and z),
  which is the default order and the only one the program uses.\<close>

definition Matrix4_makeRotationFromEuler :: "Euler \<Rightarrow> Matrix4" where
  "Matrix4_makeRotationFromEuler euler =
     (let a = cos (ex euler); b = sin (ex euler);
          c = cos (ey euler); d = sin (ey euler);
          e = cos (ez euler); f = sin (ez euler);
          ae = a * e; af = a * f; be = b * e; bf = b * f
      in Matrix4_set
           (c * e)        (- c * f)       d         0
           (af + be * d)  (ae - bf * d)   (- b * c) 0
           (bf - ae * d)  (be + af * d)   (a * c)   0
           0              0               0         1)"

text \<open>Modelled from the spec: \<open>Matrix4.setPosition\<close> sets the translation column.\<close>

definition Matrix4_setPosition :: "Matrix4 \<Rightarrow> Vector3 \<Rightarrow> Matrix4" where
  "Matrix4_setPosition te v = te[12 := vx v, 13 := vy v, 14 := vz v]"

text \<open>Modelled from the spec: the position that \<open>Matrix4.decompose\<close> writes into its first
  argument, read from the last column.\<close>

definition Matrix4_decompose_position :: "Matrix4 \<Rightarrow> Vector3" where
  "Matrix4_decompose_position te = Vector3 (te ! 12) (te ! 13) (te ! 14)"

section \<open>Conversions between the state's rows and a Matrix4\<close>

text \<open>
  The program repeats two conversions inline: \<open>m.set(rows[0][0], ..., rows[3][3])\<close>, and the
  repacking of \<open>m.toArray()\<close> (the elements array) into four rows.
\<close>

definition matrix4_of_rows :: "real list list \<Rightarrow> Matrix4" where
  "matrix4_of_rows rows =
     Matrix4_set (rows ! 0 ! 0) (rows ! 0 ! 1) (rows ! 0 ! 2) (rows ! 0 ! 3)
                 (rows ! 1 ! 0) (rows ! 1 ! 1) (rows ! 1 ! 2) (rows ! 1 ! 3)
                 (rows ! 2 ! 0) (rows ! 2 ! 1) (rows ! 2 ! 2) (rows ! 2 ! 3)
                 (rows ! 3 ! 0) (rows ! 3 ! 1) (rows ! 3 ! 2) (rows ! 3 ! 3)"

definition rows_of_array :: "real list \<Rightarrow> real list list" where
  "rows_of_array matrixArray =
     [[matrixArray ! 0, matrixArray ! 4, matrixArray ! 8, matrixArray ! 12],
      [matrixArray ! 1, matrixArray ! 5, matrixArray ! 9, matrixArray ! 13],
      [matrixArray ! 2, matrixArray ! 6, matrixArray ! 10, matrixArray ! 14],
      [matrixArray ! 3, matrixArray ! 7, matrixArray ! 11, matrixArray ! 15]]"

definition IDENTITY_MATRIX :: "real list list" where
  "IDENTITY_MATRIX = [[1, 0, 0, 0], [0, 1, 0, 0], [0, 0, 1, 0], [0, 0, 0, 1]]"

section \<open>Composition and decomposition as the program performs them\<close>

text \<open>
  The body shared by \<open>updateFromPositionRotation\<close> and the deferred part of \<open>resetCamera\<close>:
  the rows of the matrix made from a position and Euler angles.
\<close>

definition compose_rows :: "real list \<Rightarrow> real list \<Rightarrow> real list list" where
  "compose_rows pos rot =
     (let p = Vector3 (pos ! 0) (pos ! 1) (pos ! 2);
          r = Euler (rot ! 0) (rot ! 1) (rot ! 2);
          m = Matrix4_setPosition (Matrix4_makeRotationFromEuler r) p
      in rows_of_array m)"

text \<open>
  The body of \<open>updateFromMatrix\<close>. It creates \<open>rotation = new THREE.Euler()\<close> and calls
  \<open>matrix.decompose(position, new THREE.Quaternion().setFromEuler(rotation), scale)\<close>:
  the quaternion handed to \<open>decompose\<close> is a temporary, so \<open>decompose\<close> fills \<open>position\<close>
  and the temporary, and \<open>rotation\<close> is read back as it was created.
\<close>

definition decompose_rows :: "real list list \<Rightarrow> real list \<times> real list" where
  "decompose_rows rows =
     (let m = matrix4_of_rows rows;
          p = Matrix4_decompose_position m;
          r = Euler_new
      in ([vx p, vy p, vz p], [ex r, ey r, ez r]))"

section \<open>Event handlers and state updates\<close>

text \<open>
  React state: a component function closes over \<open>cameraState\<close>, the state of the render that
  created it, and \<open>setCameraState(prev => ...)\<close> applies its updater to the current state.
  Each handler is therefore a function of both: the first argument \<open>cameraState\<close> is the
  closure's snapshot, the last argument \<open>prev\<close> the state the updater receives. A callback
  passed to \<open>setTimeout(..., 0)\<close> belongs to the same render as the handler that scheduled it
  and sees the same snapshot, taken before the handler's own update.
\<close>

definition updateFromMatrix :: "CameraState \<Rightarrow> CameraState \<Rightarrow> CameraState" where
  "updateFromMatrix cameraState prev =
     (case decompose_rows (transformMatrix cameraState) of
        (p, r) \<Rightarrow> prev\<lparr>position := p, rotation := r\<rparr>)"

definition updateFromPositionRotation :: "CameraState \<Rightarrow> CameraState \<Rightarrow> CameraState" where
  "updateFromPositionRotation cameraState prev =
     prev\<lparr>transformMatrix := compose_rows (position cameraState) (rotation cameraState)\<rparr>"

text \<open>\<open>resetCamera\<close>: the immediate update, and the update deferred by \<open>setTimeout\<close>.\<close>

definition resetCamera_update :: "CameraState \<Rightarrow> CameraState" where
  "resetCamera_update prev =
     prev\<lparr>position := initialPosition prev, rotation := initialRotation prev,
          isAnimating := False\<rparr>"

definition resetCamera_timeout :: "CameraState \<Rightarrow> CameraState \<Rightarrow> CameraState" where
  "resetCamera_timeout cameraState prev =
     prev\<lparr>transformMatrix :=
            compose_rows (initialPosition cameraState) (initialRotation cameraState)\<rparr>"

definition setInitialPosition :: "CameraState \<Rightarrow> CameraState" where
  "setInitialPosition prev =
     prev\<lparr>initialPosition := position prev, initialRotation := rotation prev\<rparr>"

definition toggleAnimation :: "CameraState \<Rightarrow> CameraState" where
  "toggleAnimation prev = prev\<lparr>isAnimating := \<not> isAnimating prev\<rparr>"

text \<open>The \<open>onChange\<close> handlers of the number inputs, without their deferred callbacks.\<close>

definition position_onChange :: "CameraState \<Rightarrow> nat \<Rightarrow> real \<Rightarrow> CameraState \<Rightarrow> CameraState" where
  "position_onChange cameraState i newVal prev =
     prev\<lparr>position := (position cameraState)[i := newVal]\<rparr>"

definition rotation_onChange :: "CameraState \<Rightarrow> nat \<Rightarrow> real \<Rightarrow> CameraState \<Rightarrow> CameraState" where
  "rotation_onChange cameraState i newVal prev =
     prev\<lparr>rotation := (rotation cameraState)[i := newVal]\<rparr>"

definition transformMatrix_onChange ::
  "CameraState \<Rightarrow> nat \<Rightarrow> nat \<Rightarrow> real \<Rightarrow> CameraState \<Rightarrow> CameraState" where
  "transformMatrix_onChange cameraState i j newVal prev =
     prev\<lparr>transformMatrix :=
            (transformMatrix cameraState)[i := (transformMatrix cameraState ! i)[j := newVal]]\<rparr>"

definition movementMatrix_onChange ::
  "CameraState \<Rightarrow> nat \<Rightarrow> nat \<Rightarrow> real \<Rightarrow> CameraState \<Rightarrow> CameraState" where
  "movementMatrix_onChange cameraState i j newVal prev =
     prev\<lparr>movementMatrix :=
            (movementMatrix cameraState)[i := (movementMatrix cameraState ! i)[j := newVal]]\<rparr>"

definition boundaries_min_onChange ::
  "CameraState \<Rightarrow> nat \<Rightarrow> real \<Rightarrow> CameraState \<Rightarrow> CameraState" where
  "boundaries_min_onChange cameraState i newVal prev =
     prev\<lparr>boundaries := (boundaries prev)\<lparr>min_b := (min_b (boundaries cameraState))[i := newVal]\<rparr>\<rparr>"

definition boundaries_max_onChange ::
  "CameraState \<Rightarrow> nat \<Rightarrow> real \<Rightarrow> CameraState \<Rightarrow> CameraState" where
  "boundaries_max_onChange cameraState i newVal prev =
     prev\<lparr>boundaries := (boundaries prev)\<lparr>max_b := (max_b (boundaries cameraState))[i := newVal]\<rparr>\<rparr>"

section \<open>The movement composer\<close>

text \<open>
  The comparator \<open>order[a.category] - order[b.category]\<close> sorts by category rank, ascending.
  \<open>Array.prototype.sort\<close> is stable, and so is \<open>sort_key\<close>: presets of one category keep
  the order in which they were selected.
\<close>

definition order :: "Category \<Rightarrow> nat" where
  "order c = (case c of Translation \<Rightarrow> 0 | Rotation \<Rightarrow> 1 | Complex \<Rightarrow> 2)"

text \<open>\<open>combineSelectedPresets\<close>: the matrix it commits, and the state update.\<close>

definition newMovementMatrix :: "string list \<Rightarrow> real list list" where
  "newMovementMatrix selectedPresets =
     (if length selectedPresets = 0 then [[1, 0, 0, 0], [0, 1, 0, 0], [0, 0, 1, 0], [0, 0, 0, 1]]
      else
        let selectedPresetObjects =
              map the (filter (\<lambda>found. found \<noteq> None) (map find_preset selectedPresets));
            sortedPresets = sort_key (\<lambda>p. order (category p)) selectedPresetObjects;
            combinedMatrix =
              fold (\<lambda>preset combined. Matrix4_multiply combined (matrix4_of_rows (matrix preset)))
                   sortedPresets Matrix4_new
        in rows_of_array combinedMatrix)"

definition combineSelectedPresets :: "string list \<Rightarrow> CameraState \<Rightarrow> CameraState" where
  "combineSelectedPresets selectedPresets prev =
     prev\<lparr>movementMatrix := newMovementMatrix selectedPresets\<rparr>"

text \<open>
  \<open>clearSelection\<close> empties the selection and stores the identity as movement matrix.
\<close>

definition clearSelection :: "string list \<times> CameraState \<Rightarrow> string list \<times> CameraState" where
  "clearSelection st =
     ([], (snd st)\<lparr>movementMatrix := [[1, 0, 0, 0], [0, 1, 0, 0], [0, 0, 1, 0], [0, 0, 0, 1]]\<rparr>)"

text \<open>
  \<open>MatrixCalculationDisplay\<close>: for an empty selection the component returns \<open>null\<close> and
  computes nothing; otherwise \<open>resultMatrix\<close> is what it shows as "Result".
\<close>

definition display_sortedPresets :: "string list \<Rightarrow> MovementPreset list" where
  "display_sortedPresets selectedPresets =
     sort_key (\<lambda>p. order (category p))
       (map the (filter (\<lambda>found. found \<noteq> None) (map find_preset selectedPresets)))"

definition MatrixCalculationDisplay :: "string list \<Rightarrow> real list list option" where
  "MatrixCalculationDisplay selectedPresets =
     (if length selectedPresets = 0 then None
      else
        let currentMatrix =
              fold (\<lambda>preset current. Matrix4_multiply current (matrix4_of_rows (matrix preset)))
                   (display_sortedPresets selectedPresets) Matrix4_new;
            resultArray = currentMatrix
        in Some [[resultArray ! 0, resultArray ! 4, resultArray ! 8, resultArray ! 12],
                 [resultArray ! 1, resultArray ! 5, resultArray ! 9, resultArray ! 13],
                 [resultArray ! 2, resultArray ! 6, resultArray ! 10, resultArray ! 14],
                 [resultArray ! 3, resultArray ! 7, resultArray ! 11, resultArray ! 15]])"

section \<open>The animation step\<close>

text \<open>
  The \<open>useFrame\<close> callback of \<open>MainCameraView\<close>. Its decisions read the snapshot
  \<open>cameraState\<close>; its updaters are applied to \<open>prev\<close>. The quaternion part of
  \<open>decompose\<close> and \<open>Euler.setFromQuaternion\<close> are the parameters \<open>decompose_quaternion\<close>
  and \<open>setFromQuaternion\<close>. The callback ends by copying position and rotation of the
  snapshot to the renderer's camera, which does not touch the camera state.
\<close>

definition useFrame ::
  "(Matrix4 \<Rightarrow> 'q) \<Rightarrow> ('q \<Rightarrow> Euler) \<Rightarrow> CameraState \<Rightarrow> CameraState \<Rightarrow> CameraState" where
  "useFrame decompose_quaternion setFromQuaternion cameraState prev =
     (if isAnimating cameraState then
        let currentMatrix =
              Matrix4_multiply (matrix4_of_rows (transformMatrix cameraState))
                               (matrix4_of_rows (movementMatrix cameraState));
            pos = Matrix4_decompose_position currentMatrix;
            quaternion = decompose_quaternion currentMatrix;
            rot = setFromQuaternion quaternion;
            mn = min_b (boundaries cameraState);
            mx = max_b (boundaries cameraState);
            shouldReset =
              (vx pos < mn ! 0 \<or> vx pos > mx ! 0 \<or>
               vy pos < mn ! 1 \<or> vy pos > mx ! 1 \<or>
               vz pos < mn ! 2 \<or> vz pos > mx ! 2)
        in if shouldReset then
             prev\<lparr>position := initialPosition prev, rotation := initialRotation prev\<rparr>
           else
             prev\<lparr>position := [vx pos, vy pos, vz pos],
                  rotation := [ex rot, ey rot, ez rot],
                  transformMatrix := rows_of_array currentMatrix\<rparr>
      else prev)"

text \<open>
  What a frame computes before it decides: the product \<open>next\<close>, the position decomposed
  from it, and the boundary test.
\<close>

definition next_matrix :: "CameraState \<Rightarrow> Matrix4" where
  "next_matrix s =
     Matrix4_multiply (matrix4_of_rows (transformMatrix s)) (matrix4_of_rows (movementMatrix s))"

definition next_position :: "CameraState \<Rightarrow> real list" where
  "next_position s =
     (let pos = Matrix4_decompose_position (next_matrix s) in [vx pos, vy pos, vz pos])"

definition shouldReset :: "CameraState \<Rightarrow> bool" where
  "shouldReset s =
     (let pos = Matrix4_decompose_position (next_matrix s);
          mn = min_b (boundaries s); mx = max_b (boundaries s)
      in vx pos < mn ! 0 \<or> vx pos > mx ! 0 \<or>
         vy pos < mn ! 1 \<or> vy pos > mx ! 1 \<or>
         vz pos < mn ! 2 \<or> vz pos > mx ! 2)"

section \<open>The operations of the camera state machine\<close>

text \<open>
  One operation is a handler run in the render of the current state, followed by the callback
  it deferred, if any: snapshot and \<open>prev\<close> of the handler are both the state \<open>s\<close> the
  operation starts from, and the deferred callback keeps the snapshot \<open>s\<close>.
\<close>

definition setPositionComponent :: "nat \<Rightarrow> real \<Rightarrow> CameraState \<Rightarrow> CameraState" where
  "setPositionComponent i newVal s =
     updateFromPositionRotation s (position_onChange s i newVal s)"

definition setRotationComponent :: "nat \<Rightarrow> real \<Rightarrow> CameraState \<Rightarrow> CameraState" where
  "setRotationComponent i newVal s =
     updateFromPositionRotation s (rotation_onChange s i newVal s)"

definition setMatrixCell :: "nat \<Rightarrow> nat \<Rightarrow> real \<Rightarrow> CameraState \<Rightarrow> CameraState" where
  "setMatrixCell i j newVal s = updateFromMatrix s (transformMatrix_onChange s i j newVal s)"

definition setMovementMatrixCell :: "nat \<Rightarrow> nat \<Rightarrow> real \<Rightarrow> CameraState \<Rightarrow> CameraState" where
  "setMovementMatrixCell i j newVal s = movementMatrix_onChange s i j newVal s"

definition resetCamera :: "CameraState \<Rightarrow> CameraState" where
  "resetCamera s = resetCamera_timeout s (resetCamera_update s)"

definition animationStep ::
  "(Matrix4 \<Rightarrow> 'q) \<Rightarrow> ('q \<Rightarrow> Euler) \<Rightarrow> CameraState \<Rightarrow> CameraState" where
  "animationStep decompose_quaternion setFromQuaternion s =
     useFrame decompose_quaternion setFromQuaternion s s"

section \<open>The number inputs\<close>

text \<open>
  \<open>NumberInput.handleBlur\<close> parses the text of the field: \<open>numValue\<close> is \<open>None\<close> when
  \<open>Number.parseFloat\<close> yields NaN, and then only the field's own text is restored.
\<close>

definition handleBlur :: "(real \<Rightarrow> 's \<Rightarrow> 's) \<Rightarrow> real option \<Rightarrow> 's \<Rightarrow> 's" where
  "handleBlur onChange numValue s = (case numValue of Some v \<Rightarrow> onChange v s | None \<Rightarrow> s)"

text \<open>
  Modelled from the spec: the \<open>Input\<close> widget (components/ui/input) is not among the
  sources. "UI disables direct editing": a disabled input takes no focus and delivers no
  blur or key event, so its handler does not run.
\<close>

definition Input_event :: "bool \<Rightarrow> ('s \<Rightarrow> 's) \<Rightarrow> 's \<Rightarrow> 's" where
  "Input_event disabled handler s = (if disabled then s else handler s)"

text \<open>The number inputs of the control panel, with the \<open>disabled\<close> and \<open>onChange\<close> props
  the panel gives each of them (\<open>disabled\<close> defaults to \<open>false\<close>).\<close>

datatype Field =
    PositionInput nat
  | RotationInput nat
  | MovementCell nat nat
  | TransformCell nat nat
  | BoundaryMin nat
  | BoundaryMax nat

fun field_disabled :: "CameraState \<Rightarrow> Field \<Rightarrow> bool" where
  "field_disabled cameraState (PositionInput i) = isAnimating cameraState"
| "field_disabled cameraState (RotationInput i) = isAnimating cameraState"
| "field_disabled cameraState (MovementCell i j) = False"
| "field_disabled cameraState (TransformCell i j) = isAnimating cameraState"
| "field_disabled cameraState (BoundaryMin i) = False"
| "field_disabled cameraState (BoundaryMax i) = False"

fun field_onChange :: "Field \<Rightarrow> real \<Rightarrow> CameraState \<Rightarrow> CameraState" where
  "field_onChange (PositionInput i) v s = setPositionComponent i v s"
| "field_onChange (RotationInput i) v s = setRotationComponent i v s"
| "field_onChange (MovementCell i j) v s = setMovementMatrixCell i j v s"
| "field_onChange (TransformCell i j) v s = setMatrixCell i j v s"
| "field_onChange (BoundaryMin i) v s = boundaries_min_onChange s i v s"
| "field_onChange (BoundaryMax i) v s = boundaries_max_onChange s i v s"

text \<open>A user edit of one field: the field's text is committed by blur or Enter.\<close>

definition user_edit :: "Field \<Rightarrow> real option \<Rightarrow> CameraState \<Rightarrow> CameraState" where
  "user_edit fld numValue s =
     Input_event (field_disabled s fld) (handleBlur (field_onChange fld) numValue) s"

section \<open>Notions of the specification\<close>

text \<open>
  The translation column and the rotation block of a matrix given as rows, and the
  synchronization invariant in the specification's words: the position is the translation
  column of the transform matrix, and the matrix composed from position and rotation has
  the rotation block of the transform matrix.
\<close>

definition translation_column :: "real list list \<Rightarrow> real list" where
  "translation_column rows = [rows ! 0 ! 3, rows ! 1 ! 3, rows ! 2 ! 3]"

definition rotation_block :: "real list list \<Rightarrow> real list list" where
  "rotation_block rows =
     [[rows ! 0 ! 0, rows ! 0 ! 1, rows ! 0 ! 2],
      [rows ! 1 ! 0, rows ! 1 ! 1, rows ! 1 ! 2],
      [rows ! 2 ! 0, rows ! 2 ! 1, rows ! 2 ! 2]]"

definition synchronized :: "CameraState \<Rightarrow> bool" where
  "synchronized s \<longleftrightarrow>
     position s = translation_column (transformMatrix s) \<and>
     rotation_block (compose_rows (position s) (rotation s)) = rotation_block (transformMatrix s)"

text \<open>The state the component starts with.\<close>

definition initial_cameraState :: CameraState where
  "initial_cameraState =
     \<lparr>position = [1, 2, 6], rotation = [0, 0, 0],
      transformMatrix = [[1, 0, 0, 1], [0, 1, 0, 2], [0, 0, 1, 6], [0, 0, 0, 1]],
      movementMatrix = [[1, 0, 0, 0], [0, 1, 0, 0], [0, 0, 1, 0], [0, 0, 0, 1]],
      initialPosition = [1, 2, 6], initialRotation = [0, 0, 0],
      isAnimating = False,
      boundaries = \<lparr>min_b = [-8, 0.5, -8], max_b = [8, 6, 8]\<rparr>\<rparr>"

text \<open>The entries of a preset's \<open>conflictsWith\<close>, empty when the field is absent.\<close>

definition conflicts_list :: "MovementPreset \<Rightarrow> string list" where
  "conflicts_list p = (case conflictsWith p of None \<Rightarrow> [] | Some cs \<Rightarrow> cs)"

section \<open>States used as concrete inputs\<close>

text \<open>
  The camera after "backward" has been combined and the animation has carried it to the
  far face of the boundary box: one more step leaves the box.
\<close>

definition edge_cameraState :: CameraState where
  "edge_cameraState =
     initial_cameraState
       \<lparr>position := [1, 2, 8],
        transformMatrix := [[1, 0, 0, 1], [0, 1, 0, 2], [0, 0, 1, 8], [0, 0, 0, 1]],
        movementMatrix := [[1, 0, 0, 0], [0, 1, 0, 0], [0, 0, 1, 0.02], [0, 0, 0, 1]],
        isAnimating := True\<rparr>"

text \<open>One step before the far face: the next step lands exactly on it.\<close>

definition near_edge_cameraState :: CameraState where
  "near_edge_cameraState =
     initial_cameraState
       \<lparr>position := [1, 2, 7.98],
        transformMatrix := [[1, 0, 0, 1], [0, 1, 0, 2], [0, 0, 1, 7.98], [0, 0, 0, 1]],
        movementMatrix := [[1, 0, 0, 0], [0, 1, 0, 0], [0, 0, 1, 0.02], [0, 0, 0, 1]],
        isAnimating := True\<rparr>"


text \<open>An animating camera that has moved one unit forward from its initial pose.\<close>

definition moved_cameraState :: CameraState where
  "moved_cameraState =
     initial_cameraState
       \<lparr>position := [1, 2, 5],
        transformMatrix := [[1, 0, 0, 1], [0, 1, 0, 2], [0, 0, 1, 5], [0, 0, 0, 1]],
        isAnimating := True\<rparr>"

text \<open>
  The initial camera, animating, after the box's maximum on the x axis has been edited to
  0.5: the initial position itself, with x = 1, lies outside the box.
\<close>

definition narrow_box_cameraState :: CameraState where
  "narrow_box_cameraState =
     initial_cameraState
       \<lparr>isAnimating := True,
        boundaries := \<lparr>min_b = [-8, 0.5, -8], max_b = [0.5, 6, 8]\<rparr>\<rparr>"

text \<open>A synchronized camera turned a quarter turn about the z axis.\<close>

definition turned_cameraState :: CameraState where
  "turned_cameraState =
     initial_cameraState
       \<lparr>rotation := [0, 0, pi / 2],
        transformMatrix := [[0, -1, 0, 1], [1, 0, 0, 2], [0, 0, 1, 6], [0, 0, 0, 1]]\<rparr>"

section \<open>Auxiliary notions for the composer\<close>

text \<open>
  Names for the pieces of \<open>newMovementMatrix\<close>: the resolved presets, one step of the fold,
  the ids that resolve to a rotation preset, and the shape of a translation matrix.
\<close>

definition selectedPresetObjects :: "string list \<Rightarrow> MovementPreset list" where
  "selectedPresetObjects sel = map the (filter (\<lambda>found. found \<noteq> None) (map find_preset sel))"

definition apply_preset :: "MovementPreset \<Rightarrow> Matrix4 \<Rightarrow> Matrix4" where
  "apply_preset preset combined = Matrix4_multiply combined (matrix4_of_rows (matrix preset))"

definition is_rotation_id :: "string \<Rightarrow> bool" where
  "is_rotation_id i = (case find_preset i of None \<Rightarrow> False | Some p \<Rightarrow> category p = Rotation)"

definition translationM :: "real \<Rightarrow> real \<Rightarrow> real \<Rightarrow> Matrix4" where
  "translationM tx ty tz = Matrix4_set 1 0 0 tx  0 1 0 ty  0 0 1 tz  0 0 0 1"

section \<open>Preset toggling keeps the selection free of conflicts\<close>

lemma lists_conflict_alt:
  "lists_conflict a b \<longleftrightarrow> (\<exists>p. find_preset a = Some p \<and> b \<in> set (conflicts_list p))"
  unfolding lists_conflict_def conflicts_list_def by (auto split: option.splits)

lemma find_preset_SomeD:
  "find_preset a = Some p \<Longrightarrow> p \<in> set MOVEMENT_PRESETS \<and> preset_id p = a"
  unfolding find_preset_def by (auto simp: find_Some_iff)

text \<open>Two facts read off the catalog: conflicts are mutual, and no preset lists itself.\<close>

lemma catalog_symmetric:
  "\<forall>p \<in> set MOVEMENT_PRESETS. \<forall>b \<in> set (conflicts_list p). lists_conflict b (preset_id p)"
  unfolding MOVEMENT_PRESETS_def
  by (simp add: conflicts_list_def lists_conflict_def find_preset_def MOVEMENT_PRESETS_def)

lemma catalog_irreflexive:
  "\<forall>p \<in> set MOVEMENT_PRESETS. preset_id p \<notin> set (conflicts_list p)"
  unfolding MOVEMENT_PRESETS_def by (simp add: conflicts_list_def)

lemma lists_conflict_sym: "lists_conflict a b \<Longrightarrow> lists_conflict b a"
  using catalog_symmetric find_preset_SomeD unfolding lists_conflict_alt by blast

lemma lists_conflict_irrefl: "\<not> lists_conflict a a"
  using catalog_irreflexive find_preset_SomeD unfolding lists_conflict_alt by blast

lemma togglePreset_alt:
  "togglePreset x prev =
     (case find_preset x of
        None \<Rightarrow> prev
      | Some p \<Rightarrow> if x \<in> set prev then filter (\<lambda>i. i \<noteq> x) prev
                  else filter (\<lambda>i. i \<notin> set (conflicts_list p)) prev @ [x])"
  unfolding togglePreset_def conflicts_list_def by (simp split: option.splits)

lemma conflict_free_togglePreset:
  assumes "conflict_free prev"
  shows "conflict_free (togglePreset x prev)"
proof (cases "find_preset x")
  case None
  then show ?thesis using assms by (simp add: togglePreset_alt)
next
  case (Some p)
  show ?thesis
  proof (cases "x \<in> set prev")
    case True
    then show ?thesis using assms Some
      by (auto simp: togglePreset_alt conflict_free_def)
  next
    case False
    have new: "\<not> lists_conflict x b" if "b \<notin> set (conflicts_list p)" for b
      using that Some by (simp add: lists_conflict_alt)
    have "\<not> lists_conflict a b"
      if a: "a = x \<or> (a \<in> set prev \<and> a \<notin> set (conflicts_list p))"
      and b: "b = x \<or> (b \<in> set prev \<and> b \<notin> set (conflicts_list p))" for a b
    proof
      assume c: "lists_conflict a b"
      show False
      proof (cases "a = x")
        case ax: True
        show False
        proof (cases "b = x")
          case True
          with ax c show False by (simp add: lists_conflict_irrefl)
        next
          case False
          with b new ax c show False by blast
        qed
      next
        case ax: False
        show False
        proof (cases "b = x")
          case True
          with c have "lists_conflict x a" by (simp add: lists_conflict_sym)
          with a ax new show False by blast
        next
          case False
          with a b ax c assms show False by (auto simp: conflict_free_def)
        qed
      qed
    qed
    then show ?thesis using False Some
      by (auto simp: togglePreset_alt conflict_free_def)
  qed
qed

lemma conflict_free_fold:
  "conflict_free sel \<Longrightarrow> conflict_free (fold togglePreset ids sel)"
  by (induction ids arbitrary: sel) (simp_all add: conflict_free_togglePreset)

lemma in_catalog_togglePreset:
  "\<forall>i \<in> set prev. find_preset i \<noteq> None \<Longrightarrow>
   \<forall>i \<in> set (togglePreset x prev). find_preset i \<noteq> None"
  by (auto simp: togglePreset_alt split: option.splits if_splits)

lemma in_catalog_fold:
  "\<forall>i \<in> set sel. find_preset i \<noteq> None \<Longrightarrow>
   \<forall>i \<in> set (fold togglePreset ids sel). find_preset i \<noteq> None"
proof (induction ids arbitrary: sel)
  case Nil
  then show ?case by simp
next
  case (Cons x ids)
  have "\<forall>i \<in> set (togglePreset x sel). find_preset i \<noteq> None"
    using Cons.prems by (rule in_catalog_togglePreset)
  from Cons.IH[OF this] show ?case by simp
qed

lemma distinct_togglePreset: "distinct prev \<Longrightarrow> distinct (togglePreset x prev)"
  by (auto simp: togglePreset_alt split: option.splits)

lemma distinct_toggle_all: "distinct (toggle_all ids)"
proof -
  have "distinct sel \<Longrightarrow> distinct (fold togglePreset ids sel)" for sel
    by (induction ids arbitrary: sel) (simp_all add: distinct_togglePreset)
  then show ?thesis by (simp add: toggle_all_def)
qed

text \<open>
  C6. Starting from the empty selection, after any sequence of \<open>togglePreset\<close> calls the
  selection holds no two presets of which one lists the other in \<open>conflictsWith\<close>;
  toggling a preset that is selected removes it and nothing else; and toggling
  \<open>forward\<close> then \<open>backward\<close> leaves exactly \<open>backward\<close> selected.
\<close>

theorem togglePreset_conflict_exclusive:
  "conflict_free (toggle_all ids)
   \<and> (\<forall>p \<in> set (toggle_all ids).
        togglePreset p (toggle_all ids) = filter (\<lambda>i. i \<noteq> p) (toggle_all ids)
        \<and> p \<notin> set (togglePreset p (toggle_all ids)))
   \<and> toggle_all [''forward'', ''backward''] = [''backward'']"
proof (intro conjI ballI)
  show "conflict_free (toggle_all ids)"
    unfolding toggle_all_def by (rule conflict_free_fold) (simp add: conflict_free_def)
next
  fix p assume p: "p \<in> set (toggle_all ids)"
  have "\<forall>i \<in> set (toggle_all ids). find_preset i \<noteq> None"
    unfolding toggle_all_def by (rule in_catalog_fold) simp
  with p have "find_preset p \<noteq> None" by blast
  with p show "togglePreset p (toggle_all ids) = filter (\<lambda>i. i \<noteq> p) (toggle_all ids)"
    by (auto simp: togglePreset_alt)
  then show "p \<notin> set (togglePreset p (toggle_all ids))" by simp
next
  show "toggle_all [''forward'', ''backward''] = [''backward'']"
    by (simp add: toggle_all_def togglePreset_def find_preset_def MOVEMENT_PRESETS_def)
qed

theorem togglePreset_conflict_exclusive_witness:
  "toggle_all [''forward'', ''up'', ''backward'', ''yaw-left''] = [''up'', ''backward'', ''yaw-left'']
   \<and> conflict_free [''up'', ''backward'', ''yaw-left'']
   \<and> togglePreset ''up'' [''up'', ''backward'', ''yaw-left''] = [''backward'', ''yaw-left'']"
proof -
  have e: "toggle_all [''forward'', ''up'', ''backward'', ''yaw-left'']
           = [''up'', ''backward'', ''yaw-left'']"
    by (simp add: toggle_all_def togglePreset_def find_preset_def MOVEMENT_PRESETS_def)
  show ?thesis
    using togglePreset_conflict_exclusive [of "[''forward'', ''up'', ''backward'', ''yaw-left'']"]
    unfolding e by simp
qed

section \<open>The animation step\<close>

lemma useFrame_cases:
  "useFrame dq sq c prev =
     (if isAnimating c then
        if shouldReset c then
          prev\<lparr>position := initialPosition prev, rotation := initialRotation prev\<rparr>
        else
          prev\<lparr>position := next_position c,
               rotation := [ex (sq (dq (next_matrix c))), ey (sq (dq (next_matrix c))),
                            ez (sq (dq (next_matrix c)))],
               transformMatrix := rows_of_array (next_matrix c)\<rparr>
      else prev)"
  unfolding useFrame_def shouldReset_def next_position_def next_matrix_def
  by (simp add: Let_def)

lemma shouldReset_iff:
  "shouldReset s \<longleftrightarrow>
     (\<exists>i \<in> {0, 1, 2}. next_position s ! i < min_b (boundaries s) ! i
                    \<or> next_position s ! i > max_b (boundaries s) ! i)"
  unfolding shouldReset_def next_position_def by (auto simp: Let_def)

lemmas eval_matrix =
  next_position_def next_matrix_def matrix4_of_rows_def rows_of_array_def
  Matrix4_multiply_def Matrix4_set_def Matrix4_decompose_position_def Let_def

lemma edge_next: "next_position edge_cameraState = [1, 2, 8.02]"
  by (simp add: eval_matrix edge_cameraState_def initial_cameraState_def)

lemma near_edge_next: "next_position near_edge_cameraState = [1, 2, 8]"
  by (simp add: eval_matrix near_edge_cameraState_def initial_cameraState_def)

lemma narrow_box_next: "next_position narrow_box_cameraState = [1, 2, 6]"
  by (simp add: eval_matrix narrow_box_cameraState_def initial_cameraState_def)

text \<open>
  C2, as the claim states it, fails: the reset branch restores \<open>initialPosition\<close> without
  testing it against the box. For the camera whose initial position lies outside the box,
  the position decomposed from \<open>next\<close> is out of bounds on the x axis, and it is the
  position of the camera after the step.
\<close>

theorem out_of_bounds_position_committed:
  "isAnimating narrow_box_cameraState
   \<and> next_position narrow_box_cameraState ! 0 > max_b (boundaries narrow_box_cameraState) ! 0
   \<and> position (animationStep (\<lambda>m. ()) (\<lambda>q. Euler_new) narrow_box_cameraState)
       = next_position narrow_box_cameraState"
proof -
  have b: "next_position narrow_box_cameraState ! 0
           > max_b (boundaries narrow_box_cameraState) ! 0"
    unfolding narrow_box_next by (simp add: narrow_box_cameraState_def)
  then have "shouldReset narrow_box_cameraState"
    unfolding shouldReset_iff by blast
  then have "position (animationStep (\<lambda>m. ()) (\<lambda>q. Euler_new) narrow_box_cameraState)
             = initialPosition narrow_box_cameraState"
    unfolding animationStep_def useFrame_cases by (simp add: narrow_box_cameraState_def)
  then show ?thesis
    using b unfolding narrow_box_next
    by (simp add: narrow_box_cameraState_def initial_cameraState_def)
qed

text \<open>
  C2, amended. In a state with \<open>isAnimating\<close>, if some coordinate of the position
  decomposed from \<open>next = multiply(transformMatrix, movementMatrix)\<close> lies outside the
  boundary box, the step makes \<open>initialPosition\<close> the position and \<open>initialRotation\<close> the
  rotation, and leaves \<open>isAnimating\<close> true and the movement matrix, the boundaries and the
  initial pose as they were. The out-of-bounds position is the position after the step
  only if it is \<open>initialPosition\<close>, hence never when \<open>initialPosition\<close> lies inside
  the box. What the step does with \<open>transformMatrix\<close> is not part of this statement.
\<close>

theorem out_of_bounds_step_restores_initial_pose:
  assumes "isAnimating s"
    and "\<exists>i \<in> {0, 1, 2}. next_position s ! i < min_b (boundaries s) ! i
                      \<or> next_position s ! i > max_b (boundaries s) ! i"
  shows "position (animationStep dq sq s) = initialPosition s
       \<and> rotation (animationStep dq sq s) = initialRotation s
       \<and> isAnimating (animationStep dq sq s)
       \<and> movementMatrix (animationStep dq sq s) = movementMatrix s
       \<and> boundaries (animationStep dq sq s) = boundaries s
       \<and> initialPosition (animationStep dq sq s) = initialPosition s
       \<and> initialRotation (animationStep dq sq s) = initialRotation s
       \<and> ((\<forall>i \<in> {0, 1, 2}. min_b (boundaries s) ! i \<le> initialPosition s ! i
                            \<and> initialPosition s ! i \<le> max_b (boundaries s) ! i)
            \<longrightarrow> position (animationStep dq sq s) \<noteq> next_position s)"
proof -
  have step: "animationStep dq sq s
              = s\<lparr>position := initialPosition s, rotation := initialRotation s\<rparr>"
    using assms unfolding animationStep_def useFrame_cases shouldReset_iff by simp
  have "initialPosition s \<noteq> next_position s"
    if "\<forall>i \<in> {0, 1, 2}. min_b (boundaries s) ! i \<le> initialPosition s ! i
                        \<and> initialPosition s ! i \<le> max_b (boundaries s) ! i"
  proof
    assume "initialPosition s = next_position s"
    with that have "\<forall>i \<in> {0, 1, 2}. min_b (boundaries s) ! i \<le> next_position s ! i
                        \<and> next_position s ! i \<le> max_b (boundaries s) ! i"
      by simp
    with assms(2) show False by (auto simp: not_less [symmetric])
  qed
  then show ?thesis
    unfolding step using assms(1) by simp
qed

theorem out_of_bounds_step_restores_initial_pose_witness:
  "isAnimating edge_cameraState
   \<and> next_position edge_cameraState ! 2 > max_b (boundaries edge_cameraState) ! 2
   \<and> initialPosition edge_cameraState = [1, 2, 6]
   \<and> min_b (boundaries edge_cameraState) = [-8, 0.5, -8]
   \<and> max_b (boundaries edge_cameraState) = [8, 6, 8]
   \<and> position (animationStep (\<lambda>m. ()) (\<lambda>q. Euler_new) edge_cameraState) = [1, 2, 6]
   \<and> position (animationStep (\<lambda>m. ()) (\<lambda>q. Euler_new) edge_cameraState)
       \<noteq> next_position edge_cameraState
   \<and> isAnimating (animationStep (\<lambda>m. ()) (\<lambda>q. Euler_new) edge_cameraState)"
proof -
  have a: "isAnimating edge_cameraState"
    by (simp add: edge_cameraState_def)
  have b: "next_position edge_cameraState ! 2 > max_b (boundaries edge_cameraState) ! 2"
    unfolding edge_next by (simp add: edge_cameraState_def initial_cameraState_def)
  then have c: "\<exists>i \<in> {0, 1, 2}.
       next_position edge_cameraState ! i < min_b (boundaries edge_cameraState) ! i
     \<or> next_position edge_cameraState ! i > max_b (boundaries edge_cameraState) ! i"
    by blast
  have d: "initialPosition edge_cameraState = [1, 2, 6]"
    by (simp add: edge_cameraState_def initial_cameraState_def)
  have e: "\<forall>i \<in> {0, 1, 2}.
         min_b (boundaries edge_cameraState) ! i \<le> initialPosition edge_cameraState ! i
       \<and> initialPosition edge_cameraState ! i \<le> max_b (boundaries edge_cameraState) ! i"
    unfolding d by (simp add: edge_cameraState_def initial_cameraState_def)
  note t = out_of_bounds_step_restores_initial_pose [OF a c, of "\<lambda>m. ()" "\<lambda>q. Euler_new"]
  from t have "position (animationStep (\<lambda>m. ()) (\<lambda>q. Euler_new) edge_cameraState)
               = initialPosition edge_cameraState"
    by blast
  then have p: "position (animationStep (\<lambda>m. ()) (\<lambda>q. Euler_new) edge_cameraState) = [1, 2, 6]"
    unfolding d .
  from t e have n: "position (animationStep (\<lambda>m. ()) (\<lambda>q. Euler_new) edge_cameraState)
                    \<noteq> next_position edge_cameraState"
    by blast
  from t have an: "isAnimating (animationStep (\<lambda>m. ()) (\<lambda>q. Euler_new) edge_cameraState)"
    by blast
  have f: "min_b (boundaries edge_cameraState) = [-8, 0.5, -8]"
    and g: "max_b (boundaries edge_cameraState) = [8, 6, 8]"
    by (simp_all add: edge_cameraState_def initial_cameraState_def)
  show ?thesis
    using a b d f g p n an by blast
qed



text \<open>
  C10. The boundary test is strict: when every coordinate of the position decomposed from
  \<open>next\<close> lies in the closed interval between the box's bounds, a bound itself included,
  the step commits. \<open>transformMatrix\<close> becomes \<open>next\<close>, the position its translation and
  the rotation the Euler angles of its quaternion.
\<close>

theorem in_bounds_step_commits:
  assumes "isAnimating s"
    and "\<forall>i \<in> {0, 1, 2}. min_b (boundaries s) ! i \<le> next_position s ! i
                      \<and> next_position s ! i \<le> max_b (boundaries s) ! i"
  shows "animationStep dq sq s =
           s\<lparr>position := next_position s,
             rotation := [ex (sq (dq (next_matrix s))), ey (sq (dq (next_matrix s))),
                          ez (sq (dq (next_matrix s)))],
             transformMatrix := rows_of_array (next_matrix s)\<rparr>"
proof -
  have "\<not> shouldReset s"
    using assms(2) unfolding shouldReset_iff by (simp add: not_less)
  then show ?thesis
    using assms(1) unfolding animationStep_def useFrame_cases by simp
qed

theorem in_bounds_step_commits_witness:
  "isAnimating near_edge_cameraState
   \<and> next_position near_edge_cameraState ! 2 = max_b (boundaries near_edge_cameraState) ! 2
   \<and> position (animationStep (\<lambda>m. ()) (\<lambda>q. Euler_new) near_edge_cameraState) = [1, 2, 8]
   \<and> transformMatrix (animationStep (\<lambda>m. ()) (\<lambda>q. Euler_new) near_edge_cameraState)
       = [[1, 0, 0, 1], [0, 1, 0, 2], [0, 0, 1, 8], [0, 0, 0, 1]]"
proof -
  have a: "isAnimating near_edge_cameraState"
    by (simp add: near_edge_cameraState_def)
  have b: "\<forall>i \<in> {0, 1, 2}.
       min_b (boundaries near_edge_cameraState) ! i \<le> next_position near_edge_cameraState ! i
     \<and> next_position near_edge_cameraState ! i \<le> max_b (boundaries near_edge_cameraState) ! i"
    unfolding near_edge_next by (simp add: near_edge_cameraState_def initial_cameraState_def)
  have c: "rows_of_array (next_matrix near_edge_cameraState)
           = [[1, 0, 0, 1], [0, 1, 0, 2], [0, 0, 1, 8], [0, 0, 0, 1]]"
    by (simp add: eval_matrix near_edge_cameraState_def initial_cameraState_def)
  have d: "max_b (boundaries near_edge_cameraState) ! 2 = 8"
    by (simp add: near_edge_cameraState_def initial_cameraState_def)
  show ?thesis
    using in_bounds_step_commits [OF a b, of "\<lambda>m. ()" "\<lambda>q. Euler_new"] a
    unfolding near_edge_next c d by simp
qed

section \<open>The reset command\<close>

lemmas eval_compose =
  compose_rows_def Matrix4_makeRotationFromEuler_def Matrix4_setPosition_def Matrix4_set_def
  rows_of_array_def Let_def

lemma compose_rows_zero_rotation:
  "compose_rows [a, b, c] [0, 0, 0] = [[1, 0, 0, a], [0, 1, 0, b], [0, 0, 1, c], [0, 0, 0, 1]]"
  by (simp add: eval_compose)

lemma compose_rows_quarter_turn:
  "compose_rows [a, b, c] [0, 0, pi / 2] = [[0, -1, 0, a], [1, 0, 0, b], [0, 0, 1, c], [0, 0, 0, 1]]"
  by (simp add: eval_compose)

lemma compose_rows_pitch:
  "compose_rows [a, b, c] [pi / 3, 0, 0] =
     [[1, 0, 0, a], [0, 1 / 2, - (sqrt 3 / 2), b], [0, sqrt 3 / 2, 1 / 2, c], [0, 0, 0, 1]]"
  by (simp add: eval_compose cos_60 sin_60)

text \<open>
  C3, as the claim states it, fails: \<open>resetCamera\<close> is two transitions, and the state between
  them is rendered. In it the position is already the initial one while the transform matrix
  is still the one of the moved camera.
\<close>

theorem resetCamera_intermediate_state_stale:
  "position (resetCamera_update moved_cameraState) = initialPosition moved_cameraState
   \<and> transformMatrix (resetCamera_update moved_cameraState)
       \<noteq> compose_rows (position (resetCamera_update moved_cameraState))
                       (rotation (resetCamera_update moved_cameraState))"
  by (simp add: resetCamera_update_def moved_cameraState_def initial_cameraState_def
      compose_rows_zero_rotation)

text \<open>
  C3, amended. Once its deferred matrix update has run, \<open>resetCamera\<close> has produced the
  state with \<open>position = initialPosition\<close>, \<open>rotation = initialRotation\<close>,
  \<open>isAnimating = false\<close> and \<open>transformMatrix = compose(initialPosition, initialRotation)\<close>;
  before that update runs, the state is the old one with position, rotation and
  \<open>isAnimating\<close> already reset and the transform matrix untouched; and a second reset
  ends in the same state as the first.
\<close>

theorem resetCamera_final_state:
  "resetCamera s =
     s\<lparr>position := initialPosition s, rotation := initialRotation s, isAnimating := False,
       transformMatrix := compose_rows (initialPosition s) (initialRotation s)\<rparr>
   \<and> resetCamera_update s =
     s\<lparr>position := initialPosition s, rotation := initialRotation s, isAnimating := False\<rparr>
   \<and> resetCamera (resetCamera s) = resetCamera s"
  by (simp add: resetCamera_def resetCamera_update_def resetCamera_timeout_def)

section \<open>What the edit operations write\<close>

lemma decompose_rows_eq:
  "decompose_rows rows = ([rows ! 0 ! 3, rows ! 1 ! 3, rows ! 2 ! 3], [0, 0, 0])"
  by (simp add: decompose_rows_def matrix4_of_rows_def Matrix4_set_def
      Matrix4_decompose_position_def Euler_new_def)

lemma decompose_compose_position:
  "fst (decompose_rows (compose_rows p r)) = [p ! 0, p ! 1, p ! 2]"
  by (simp add: decompose_rows_eq eval_compose)

lemma setMatrixCell_eq:
  "setMatrixCell i j v s =
     s\<lparr>transformMatrix := (transformMatrix s)[i := (transformMatrix s ! i)[j := v]],
       position := translation_column (transformMatrix s), rotation := [0, 0, 0]\<rparr>"
  by (simp add: setMatrixCell_def updateFromMatrix_def transformMatrix_onChange_def
      decompose_rows_eq translation_column_def)

lemma setPositionComponent_eq:
  "setPositionComponent i v s =
     s\<lparr>position := (position s)[i := v],
       transformMatrix := compose_rows (position s) (rotation s)\<rparr>"
  by (simp add: setPositionComponent_def updateFromPositionRotation_def position_onChange_def)

lemma setRotationComponent_eq:
  "setRotationComponent i v s =
     s\<lparr>rotation := (rotation s)[i := v],
       transformMatrix := compose_rows (position s) (rotation s)\<rparr>"
  by (simp add: setRotationComponent_def updateFromPositionRotation_def rotation_onChange_def)

text \<open>
  C4, as the claim states it, fails: the handlers do not test \<open>isAnimating\<close>. Called on an
  animating camera, \<open>setPositionComponent\<close> changes the position.
\<close>

theorem edit_handlers_unguarded:
  "isAnimating moved_cameraState
   \<and> position (setPositionComponent 0 5 moved_cameraState) \<noteq> position moved_cameraState"
  by (simp add: setPositionComponent_eq moved_cameraState_def initial_cameraState_def)

text \<open>
  C4, amended. The guard is in the panel: while \<open>isAnimating\<close> is true the inputs for
  position, rotation and transform matrix are disabled, so a user edit of any of them
  leaves every field of the camera state unchanged.
\<close>

theorem disabled_inputs_ignore_edits:
  assumes "isAnimating s"
  shows "user_edit (PositionInput i) numValue s = s
       \<and> user_edit (RotationInput i) numValue s = s
       \<and> user_edit (TransformCell i j) numValue s = s"
  using assms by (simp add: user_edit_def Input_event_def)

theorem disabled_inputs_ignore_edits_witness:
  "isAnimating moved_cameraState
   \<and> user_edit (PositionInput 0) (Some 5) moved_cameraState = moved_cameraState"
  using disabled_inputs_ignore_edits [of moved_cameraState 0 "Some 5"]
  by (simp add: moved_cameraState_def)

section \<open>Synchronization of matrix, position and rotation\<close>

lemma edge_synchronized: "synchronized edge_cameraState"
  by (simp add: synchronized_def edge_cameraState_def initial_cameraState_def
      compose_rows_zero_rotation translation_column_def rotation_block_def)

lemma turned_synchronized: "synchronized turned_cameraState"
  by (simp add: synchronized_def turned_cameraState_def initial_cameraState_def
      compose_rows_quarter_turn translation_column_def rotation_block_def)

lemma edge_shouldReset: "shouldReset edge_cameraState"
  unfolding shouldReset_iff edge_next
  by (simp add: edge_cameraState_def initial_cameraState_def)

text \<open>
  C1 evaluated where the program breaks it. The claim: after every operation the position is
  the translation column of the transform matrix and composing position and rotation gives
  the matrix's rotation block. First, the out-of-bounds branch of the animation step: from a
  synchronized camera on the far face of the box it restores the initial position and
  leaves the transform matrix on the face. Second, \<open>setMatrixCell\<close>: on a synchronized
  camera turned a quarter turn, rewriting a cell with the value it holds leaves the matrix as
  it is and sets the rotation to zero.
\<close>

theorem synchronization_broken:
  "synchronized edge_cameraState
   \<and> position (animationStep dq sq edge_cameraState) = [1, 2, 6]
   \<and> translation_column (transformMatrix (animationStep dq sq edge_cameraState)) = [1, 2, 8]
   \<and> \<not> synchronized (animationStep dq sq edge_cameraState)
   \<and> synchronized turned_cameraState
   \<and> transformMatrix (setMatrixCell 0 3 1 turned_cameraState) = transformMatrix turned_cameraState
   \<and> rotation (setMatrixCell 0 3 1 turned_cameraState) = [0, 0, 0]
   \<and> \<not> synchronized (setMatrixCell 0 3 1 turned_cameraState)"
proof -
  have step: "animationStep dq sq edge_cameraState =
        edge_cameraState\<lparr>position := initialPosition edge_cameraState,
                         rotation := initialRotation edge_cameraState\<rparr>"
    unfolding animationStep_def useFrame_cases using edge_shouldReset
    by (simp add: edge_cameraState_def)
  have p: "position (animationStep dq sq edge_cameraState) = [1, 2, 6]"
    unfolding step by (simp add: edge_cameraState_def initial_cameraState_def)
  have t: "translation_column (transformMatrix (animationStep dq sq edge_cameraState)) = [1, 2, 8]"
    unfolding step by (simp add: edge_cameraState_def translation_column_def)
  have n: "\<not> synchronized (animationStep dq sq edge_cameraState)"
    unfolding synchronized_def p t by simp
  have m: "transformMatrix (setMatrixCell 0 3 1 turned_cameraState) = transformMatrix turned_cameraState"
    unfolding setMatrixCell_eq by (simp add: turned_cameraState_def)
  have r: "rotation (setMatrixCell 0 3 1 turned_cameraState) = [0, 0, 0]"
    unfolding setMatrixCell_eq by simp
  have q: "position (setMatrixCell 0 3 1 turned_cameraState) = [1, 2, 6]"
    unfolding setMatrixCell_eq by (simp add: turned_cameraState_def translation_column_def)
  have n2: "\<not> synchronized (setMatrixCell 0 3 1 turned_cameraState)"
    unfolding synchronized_def m r q compose_rows_zero_rotation
    by (simp add: turned_cameraState_def rotation_block_def)
  show ?thesis
    using edge_synchronized turned_synchronized p t n m r n2 by simp
qed

section \<open>Compose and decompose\<close>

text \<open>
  C7 evaluated where the program breaks it. For \<open>p = (0, 0, 0)\<close> and
  \<open>r = (\<pi>/3, 0, 0)\<close>, an angle inside \<open>(-\<pi>/2, \<pi>/2)\<close>, decomposing the composed
  matrix gives back the position and the zero rotation; composing again gives the identity
  rotation block, whose middle entry differs from that of \<open>compose(p, r)\<close> by one half.
\<close>

theorem roundtrip_loses_rotation:
  "- (pi / 2) < pi / 3 \<and> pi / 3 < pi / 2
   \<and> decompose_rows (compose_rows [0, 0, 0] [pi / 3, 0, 0]) = ([0, 0, 0], [0, 0, 0])
   \<and> rotation_block (compose_rows [0, 0, 0] [pi / 3, 0, 0]) ! 1 ! 1 = 1 / 2
   \<and> rotation_block
        (compose_rows (fst (decompose_rows (compose_rows [0, 0, 0] [pi / 3, 0, 0])))
                      (snd (decompose_rows (compose_rows [0, 0, 0] [pi / 3, 0, 0])))) ! 1 ! 1 = 1
   \<and> \<bar>rotation_block
        (compose_rows (fst (decompose_rows (compose_rows [0, 0, 0] [pi / 3, 0, 0])))
                      (snd (decompose_rows (compose_rows [0, 0, 0] [pi / 3, 0, 0])))) ! 1 ! 1
      - rotation_block (compose_rows [0, 0, 0] [pi / 3, 0, 0]) ! 1 ! 1\<bar> > 1 / 10 ^ 6"
proof -
  have d: "decompose_rows (compose_rows [0, 0, 0] [pi / 3, 0, 0]) = ([0, 0, 0], [0, 0, 0])"
    unfolding compose_rows_pitch by (simp add: decompose_rows_eq)
  have a: "rotation_block (compose_rows [0, 0, 0] [pi / 3, 0, 0]) ! 1 ! 1 = 1 / 2"
    unfolding compose_rows_pitch by (simp add: rotation_block_def)
  have b: "rotation_block (compose_rows [0, 0, 0] [0, 0, 0]) ! 1 ! 1 = 1"
    unfolding compose_rows_zero_rotation by (simp add: rotation_block_def)
  have r: "- (pi / 2) < pi / 3 \<and> pi / 3 < pi / 2"
    using pi_gt_zero by linarith
  show ?thesis unfolding d fst_conv snd_conv a b using r by simp
qed

section \<open>The composer and the order of selection\<close>

lemma newMovementMatrix_alt:
  "newMovementMatrix sel =
     (if sel = [] then IDENTITY_MATRIX
      else rows_of_array (fold apply_preset
             (sort_key (\<lambda>p. order (category p)) (selectedPresetObjects sel)) Matrix4_new))"
  unfolding newMovementMatrix_def selectedPresetObjects_def apply_preset_def IDENTITY_MATRIX_def
  by (simp add: Let_def)

lemma sorted_three_keys:
  fixes k :: "'a \<Rightarrow> nat"
  assumes "sorted (map k s)" and "\<And>x. k x \<le> 2"
  shows "s = filter (\<lambda>x. k x = 0) s @ filter (\<lambda>x. k x = 1) s @ filter (\<lambda>x. k x = 2) s"
  using assms(1)
proof (induction s)
  case Nil
  then show ?case by simp
next
  case (Cons x s)
  then have le: "\<forall>y \<in> set s. k x \<le> k y" and srt: "sorted (map k s)" by auto
  note IH = Cons.IH[OF srt]
  have "k x = 0 \<or> k x = 1 \<or> k x = 2" using assms(2)[of x] by linarith
  then show ?case
  proof (elim disjE)
    assume "k x = 0"
    then show ?thesis using IH by simp
  next
    assume kx: "k x = 1"
    then have "filter (\<lambda>x. k x = 0) s = []" using le by (auto simp: filter_empty_conv)
    then show ?thesis using IH kx by simp
  next
    assume kx: "k x = 2"
    then have "filter (\<lambda>x. k x = 0) s = []" "filter (\<lambda>x. k x = 1) s = []"
      using le by (auto simp: filter_empty_conv)
    then show ?thesis using IH kx by simp
  qed
qed

lemma order_le_2: "order c \<le> 2"
  by (cases c) (simp_all add: order_def)

lemma order_eq_iff:
  "order c = 0 \<longleftrightarrow> c = Translation" "order c = Suc 0 \<longleftrightarrow> c = Rotation"
  "order c = 2 \<longleftrightarrow> c = Complex"
  by (cases c; simp add: order_def)+

lemma sortedPresets_split:
  "sort_key (\<lambda>p. order (category p)) l =
     filter (\<lambda>p. category p = Translation) l @ filter (\<lambda>p. category p = Rotation) l
     @ filter (\<lambda>p. category p = Complex) l"
proof -
  let ?k = "\<lambda>p. order (category p)"
  have "sort_key ?k l = filter (\<lambda>x. ?k x = 0) (sort_key ?k l) @ filter (\<lambda>x. ?k x = 1) (sort_key ?k l)
        @ filter (\<lambda>x. ?k x = 2) (sort_key ?k l)"
    by (rule sorted_three_keys) (simp_all add: order_le_2)
  then show ?thesis
    unfolding sort_key_stable by (simp add: order_eq_iff)
qed

lemma translations_commute:
  "Matrix4_multiply (Matrix4_multiply a (translationM s1 s2 s3)) (translationM t1 t2 t3) =
   Matrix4_multiply (Matrix4_multiply a (translationM t1 t2 t3)) (translationM s1 s2 s3)"
  by (simp add: Matrix4_multiply_def Matrix4_set_def translationM_def Let_def algebra_simps)

lemma catalog_translations:
  "\<forall>p \<in> set MOVEMENT_PRESETS. category p = Translation \<longrightarrow>
     matrix4_of_rows (matrix p) = translationM (matrix p ! 0 ! 3) (matrix p ! 1 ! 3) (matrix p ! 2 ! 3)"
  unfolding MOVEMENT_PRESETS_def
  by (simp add: matrix4_of_rows_def translationM_def)

lemma catalog_one_complex:
  "\<forall>p \<in> set MOVEMENT_PRESETS. \<forall>q \<in> set MOVEMENT_PRESETS.
     category p = Complex \<longrightarrow> category q = Complex \<longrightarrow> p = q"
  unfolding MOVEMENT_PRESETS_def by simp


lemma objs_in_catalog: "p \<in> set (selectedPresetObjects sel) \<Longrightarrow> p \<in> set MOVEMENT_PRESETS"
  unfolding selectedPresetObjects_def using find_preset_SomeD by fastforce

lemma mset_objs:
  assumes "mset xs = mset ys"
  shows "mset (selectedPresetObjects xs) = mset (selectedPresetObjects ys)"
proof -
  have "mset (selectedPresetObjects zs)
        = image_mset the (filter_mset (\<lambda>found. found \<noteq> None) (image_mset find_preset (mset zs)))"
    for zs
    by (simp add: selectedPresetObjects_def)
  then show ?thesis by (simp only: assms)
qed

lemma rotation_objs:
  "filter (\<lambda>p. category p = Rotation) (selectedPresetObjects xs)
   = selectedPresetObjects (filter is_rotation_id xs)"
  unfolding selectedPresetObjects_def is_rotation_id_def
  by (induction xs) (auto split: option.splits)

lemma fold_translations:
  assumes "mset xs = mset ys"
  shows "fold apply_preset (filter (\<lambda>p. category p = Translation) (selectedPresetObjects xs)) acc
       = fold apply_preset (filter (\<lambda>p. category p = Translation) (selectedPresetObjects ys)) acc"
proof -
  let ?A = "filter (\<lambda>p. category p = Translation) (selectedPresetObjects xs)"
  let ?B = "filter (\<lambda>p. category p = Translation) (selectedPresetObjects ys)"
  have m: "mset ?A = mset ?B" using mset_objs[OF assms] by (metis mset_filter)
  have c: "apply_preset p \<circ> apply_preset q = apply_preset q \<circ> apply_preset p"
    if "p \<in> set ?A" "q \<in> set ?A" for p q
  proof -
    from that have "p \<in> set MOVEMENT_PRESETS" "category p = Translation"
      "q \<in> set MOVEMENT_PRESETS" "category q = Translation"
      by (auto dest: objs_in_catalog)
    then obtain s1 s2 s3 t1 t2 t3 where
      "matrix4_of_rows (matrix p) = translationM s1 s2 s3"
      "matrix4_of_rows (matrix q) = translationM t1 t2 t3"
      using catalog_translations by blast
    then show ?thesis
      by (auto simp: apply_preset_def fun_eq_iff translations_commute)
  qed
  have "fold apply_preset ?A = fold apply_preset ?B"
    by (rule fold_multiset_equiv) (use c m in auto)
  then show ?thesis by simp
qed

lemma fold_complex:
  assumes "mset xs = mset ys"
  shows "fold apply_preset (filter (\<lambda>p. category p = Complex) (selectedPresetObjects xs)) acc
       = fold apply_preset (filter (\<lambda>p. category p = Complex) (selectedPresetObjects ys)) acc"
proof -
  let ?A = "filter (\<lambda>p. category p = Complex) (selectedPresetObjects xs)"
  let ?B = "filter (\<lambda>p. category p = Complex) (selectedPresetObjects ys)"
  have m: "mset ?A = mset ?B" using mset_objs[OF assms] by (metis mset_filter)
  have c: "apply_preset p \<circ> apply_preset q = apply_preset q \<circ> apply_preset p"
    if "p \<in> set ?A" "q \<in> set ?A" for p q
  proof -
    from that have "p \<in> set MOVEMENT_PRESETS" "category p = Complex"
      "q \<in> set MOVEMENT_PRESETS" "category q = Complex"
      by (auto dest: objs_in_catalog)
    then have "p = q" using catalog_one_complex by blast
    then show ?thesis by simp
  qed
  have "fold apply_preset ?A = fold apply_preset ?B"
    by (rule fold_multiset_equiv) (use c m in auto)
  then show ?thesis by simp
qed

lemmas eval_composer =
  newMovementMatrix_def find_preset_def MOVEMENT_PRESETS_def order_def
  matrix4_of_rows_def rows_of_array_def Matrix4_multiply_def Matrix4_set_def Matrix4_new_def Let_def

lemma yaw_pitch: "newMovementMatrix [''yaw-left'', ''pitch-up''] ! 0 ! 1 = 0.0004"
  by (simp add: eval_composer)

lemma pitch_yaw: "newMovementMatrix [''pitch-up'', ''yaw-left''] ! 0 ! 1 = 0"
  by (simp add: eval_composer)

text \<open>
  C5, as the claim states it, fails for two rotation presets: the sort is by category only
  and keeps the selection order inside a category, and yaw does not commute with pitch.
\<close>

theorem composer_depends_on_rotation_order:
  "newMovementMatrix [''yaw-left'', ''pitch-up''] \<noteq> newMovementMatrix [''pitch-up'', ''yaw-left'']"
proof
  assume "newMovementMatrix [''yaw-left'', ''pitch-up'']
          = newMovementMatrix [''pitch-up'', ''yaw-left'']"
  then have "newMovementMatrix [''yaw-left'', ''pitch-up''] ! 0 ! 1
             = newMovementMatrix [''pitch-up'', ''yaw-left''] ! 0 ! 1"
    by simp
  then show False unfolding yaw_pitch pitch_yaw by simp
qed

text \<open>
  C5, amended. The committed movement matrix depends only on the set of selected ids and on
  the order in which the rotation presets among them were selected: two selection orders
  of one set that list their rotation presets in the same order give the same matrix. In
  particular \<open>forward, yaw-left\<close> and \<open>yaw-left, forward\<close> give the same matrix.
\<close>

theorem composer_order_independence:
  assumes "distinct xs" and "distinct ys" and "set xs = set ys"
    and "filter is_rotation_id xs = filter is_rotation_id ys"
  shows "newMovementMatrix xs = newMovementMatrix ys"
proof -
  have m: "mset xs = mset ys"
    using assms(1-3) by (simp add: set_eq_iff_mset_eq_distinct)
  have e: "xs = [] \<longleftrightarrow> ys = []" using assms(3) by auto
  have "fold apply_preset (sort_key (\<lambda>p. order (category p)) (selectedPresetObjects xs)) Matrix4_new
      = fold apply_preset (sort_key (\<lambda>p. order (category p)) (selectedPresetObjects ys)) Matrix4_new"
    unfolding sortedPresets_split fold_append comp_def rotation_objs assms(4)
    by (simp add: fold_translations[OF m] fold_complex[OF m])
  then show ?thesis
    unfolding newMovementMatrix_alt using e by simp
qed

theorem composer_order_independence_witness:
  "distinct [''forward'', ''yaw-left''] \<and> distinct [''yaw-left'', ''forward'']
   \<and> set [''forward'', ''yaw-left''] = set [''yaw-left'', ''forward'']
   \<and> filter is_rotation_id [''forward'', ''yaw-left''] = filter is_rotation_id [''yaw-left'', ''forward'']
   \<and> newMovementMatrix [''forward'', ''yaw-left''] = newMovementMatrix [''yaw-left'', ''forward'']"
proof -
  have a: "distinct [''forward'', ''yaw-left'']" and b: "distinct [''yaw-left'', ''forward'']"
    by simp_all
  have c: "set [''forward'', ''yaw-left''] = set [''yaw-left'', ''forward'']"
    by auto
  have d: "filter is_rotation_id [''forward'', ''yaw-left'']
           = filter is_rotation_id [''yaw-left'', ''forward'']"
    by (simp add: is_rotation_id_def find_preset_def MOVEMENT_PRESETS_def)
  show ?thesis
    using composer_order_independence [OF a b c d] a b c d by simp
qed

section \<open>The calculation display\<close>

text \<open>
  C8. The display computes a result matrix exactly for the non-empty selections (for the
  empty one it renders nothing), and that matrix is the movement matrix that
  \<open>combineSelectedPresets\<close> commits for the same selection.
\<close>

theorem display_commit_equivalence:
  "(case MatrixCalculationDisplay sel of
      None \<Rightarrow> sel = []
    | Some resultMatrix \<Rightarrow>
        sel \<noteq> [] \<and> resultMatrix = movementMatrix (combineSelectedPresets sel s))"
  by (simp add: MatrixCalculationDisplay_def combineSelectedPresets_def newMovementMatrix_def
      display_sortedPresets_def rows_of_array_def Let_def)

end
